theory Spec2Isabelle
  imports Main "HOL-Library.Word" "HOL-Library.Signed_Division"
begin

unbundle bit_operations_syntax

section \<open>The lights module of the tuna device (liblight/lights.c)\<close>

text \<open>
  The module multiplexes three virtual LEDs (attention, notification, charging) onto the
  one AN30259A LED and drives the panel backlight. The model follows lights.c function by
  function. The C integers are words of the width the platform gives them (\<open>int\<close> and
  \<open>unsigned int\<close> are 32 bits wide on this device); return codes, which are only compared
  and negated, are mathematical integers. The mutex \<open>g_lock\<close> and the logging macros have
  no effect on the values computed and are left out.
\<close>

subsection \<open>Declarations of the platform headers\<close>

text \<open>
  Modelled from the spec: \<open>struct light_state_t\<close> and the \<open>LIGHT_FLASH_*\<close> constants are
  declared in hardware/lights.h, which is not among the sources. The spec names the request's
  fields (color, flashMode, flashOnMs, flashOffMs) and the three flash modes None, Timed and
  Hardware; the field types (\<open>unsigned int color\<close>, the others \<open>int\<close>) and the values 0, 1, 2
  are those of the platform header. The three constants are labels of one \<open>switch\<close>, hence
  pairwise distinct whatever their values.
\<close>

record light_state_t =
  color :: "32 word"
  flashMode :: "32 word"
  flashOnMS :: "32 word"
  flashOffMS :: "32 word"
  brightnessMode :: "32 word"

definition LIGHT_FLASH_NONE :: "32 word" where
  "LIGHT_FLASH_NONE = 0"

definition LIGHT_FLASH_TIMED :: "32 word" where
  "LIGHT_FLASH_TIMED = 1"

definition LIGHT_FLASH_HARDWARE :: "32 word" where
  "LIGHT_FLASH_HARDWARE = 2"

text \<open>
  Modelled from the spec: \<open>struct an30259a_pr_control\<close> and the \<open>LED_LIGHT_*\<close> constants are
  declared in linux/leds-an30259a.h, which is not among the sources. The spec names the
  descriptor's activation (Off, SteadyOn, Blink), its color, the four slope durations, the
  mid brightness and the off duration, and says that the all-zero descriptor is Off. The
  field widths are those of the driver's header: \<open>__u32\<close> color and state, \<open>__u16\<close> for
  every duration, \<open>__u8\<close> mid brightness. The field \<open>color\<close> of the descriptor is called
  \<open>led_color\<close> here, since the request has a field of the same name.
\<close>

record an30259a_pr_control =
  led_color :: "32 word"
  state :: "32 word"
  start_delay :: "16 word"
  time_slope_up_1 :: "16 word"
  time_slope_up_2 :: "16 word"
  time_on :: "16 word"
  time_slope_down_1 :: "16 word"
  time_slope_down_2 :: "16 word"
  time_off :: "16 word"
  mid_brightness :: "8 word"

definition LED_LIGHT_OFF :: "32 word" where
  "LED_LIGHT_OFF = 0"

definition LED_LIGHT_ON :: "32 word" where
  "LED_LIGHT_ON = 1"

definition LED_LIGHT_PULSE :: "32 word" where
  "LED_LIGHT_PULSE = 2"

definition LED_LIGHT_SLOPE :: "32 word" where
  "LED_LIGHT_SLOPE = 3"

text \<open>
  Modelled from the spec: \<open>EINVAL\<close> is declared in errno.h, which is not among the
  sources. It is the spec's InvalidArgument, an OS-style error number returned negated;
  Linux numbers it 22.
\<close>

definition EINVAL :: int where
  "EINVAL = 22"

subsection \<open>Constants of lights.c\<close>

definition LCD_FILE :: string where
  "LCD_FILE = ''/sys/class/backlight/s6e8aa0/brightness''"

definition LED_FILE :: string where
  "LED_FILE = ''/dev/an30259a_leds''"

definition IMAX :: "32 word" where
  "IMAX = 0"

definition SLOPE_UP_1 :: "32 word" where
  "SLOPE_UP_1 = 450"

definition SLOPE_UP_2 :: "32 word" where
  "SLOPE_UP_2 = 500 - SLOPE_UP_1"

definition SLOPE_DOWN_1 :: "32 word" where
  "SLOPE_DOWN_1 = SLOPE_UP_2"

definition SLOPE_DOWN_2 :: "32 word" where
  "SLOPE_DOWN_2 = SLOPE_UP_1"

definition MID_BRIGHTNESS :: "32 word" where
  "MID_BRIGHTNESS = 31"

definition LED_TYPE_ATTENTION :: int where
  "LED_TYPE_ATTENTION = 0"

definition LED_TYPE_NOTIFICATION :: int where
  "LED_TYPE_NOTIFICATION = 1"

definition LED_TYPE_CHARGING :: int where
  "LED_TYPE_CHARGING = 2"

definition LED_TYPE_LAST :: int where
  "LED_TYPE_LAST = 3"

subsection \<open>C arithmetic\<close>

text \<open>
  Division of two \<open>int\<close>s truncates towards zero. A product of two \<open>int\<close>s that leaves the
  32 bits is undefined in C; on this device it wraps, and the model wraps.
\<close>

definition c_div :: "32 word \<Rightarrow> 32 word \<Rightarrow> 32 word" where
  "c_div a b = word_of_int (sint a sdiv sint b)"

subsection \<open>The system calls and the process state\<close>

text \<open>
  The functions of lights.c reach the hardware through \<open>open\<close>, \<open>write\<close>, \<open>ioctl\<close> and
  \<open>close\<close>. What the kernel answers to the calls of one operation is an input of the model
  (\<open>os_env\<close>); the calls made are recorded in order in the process state, next to the
  array of virtual LED states.
\<close>

record os_env =
  open_fd :: int
  open_errno :: int
  write_amt :: int
  write_errno :: int
  ioctl_imax_ret :: int
  ioctl_led_ret :: int

datatype sys_call =
  SysOpen string
  | SysWrite int
  | SysIoctlSetImax "32 word"
  | SysIoctlSetLed an30259a_pr_control
  | SysClose

record process =
  g_led_states :: "an30259a_pr_control list"
  syscalls :: "sys_call list"

definition issue :: "sys_call list \<Rightarrow> process \<Rightarrow> process" where
  "issue cs p = p\<lparr>syscalls := syscalls p @ cs\<rparr>"

text \<open>A descriptor after \<open>memset(led_state, 0, sizeof(*led_state))\<close>.\<close>

definition zero_pr_control :: an30259a_pr_control where
  "zero_pr_control =
     \<lparr>led_color = 0, state = 0, start_delay = 0, time_slope_up_1 = 0, time_slope_up_2 = 0,
      time_on = 0, time_slope_down_1 = 0, time_slope_down_2 = 0, time_off = 0,
      mid_brightness = 0\<rparr>"

text \<open>\<open>init_g_lock\<close>: the array of \<open>LED_TYPE_LAST\<close> descriptors is zeroed.\<close>

definition init_g_lock :: "process \<Rightarrow> process" where
  "init_g_lock p = p\<lparr>g_led_states := replicate (nat LED_TYPE_LAST) zero_pr_control\<rparr>"

subsection \<open>The backlight\<close>

text \<open>
  \<open>write_int\<close> prints the value with \<open>"%d\\n"\<close> and writes the text; the recorded call
  carries the number printed.
\<close>

definition write_int :: "os_env \<Rightarrow> string \<Rightarrow> 32 word \<Rightarrow> process \<Rightarrow> int \<times> process" where
  "write_int env path v p =
     (if open_fd env \<ge> 0 then
        (if write_amt env = - 1 then - write_errno env else 0,
         issue [SysOpen path, SysWrite (sint v), SysClose] p)
      else (- open_errno env, issue [SysOpen path] p))"

text \<open>
  \<open>color\<close> is an \<open>int\<close> in \<open>rgb_to_brightness\<close>, so \<open>>>\<close> is the arithmetic shift.
\<close>

definition rgb_to_brightness :: "light_state_t \<Rightarrow> 32 word" where
  "rgb_to_brightness lstate =
     (let c = color lstate AND 0x00ffffff
      in signed_drop_bit 8
           (77 * (signed_drop_bit 16 c AND 0x00ff)
            + 150 * (signed_drop_bit 8 c AND 0x00ff)
            + 29 * (c AND 0x00ff)))"

definition set_light_backlight :: "os_env \<Rightarrow> light_state_t \<Rightarrow> process \<Rightarrow> int \<times> process" where
  "set_light_backlight env lstate p =
     (let brightness = rgb_to_brightness lstate
      in write_int env LCD_FILE brightness p)"

subsection \<open>The LED\<close>

definition write_leds :: "os_env \<Rightarrow> an30259a_pr_control \<Rightarrow> process \<Rightarrow> int \<times> process" where
  "write_leds env led p =
     (if open_fd env \<ge> 0 then
        (let err = ioctl_imax_ret env;
             err = ioctl_led_ret env
         in (err, issue [SysOpen LED_FILE, SysIoctlSetImax IMAX, SysIoctlSetLed led, SysClose] p))
      else (- open_errno env, issue [SysOpen LED_FILE] p))"

text \<open>The \<open>for\<close> loop of \<open>write_leds_priority\<close>, from index \<open>i\<close> on, and what follows it.\<close>

function write_leds_priority_from :: "os_env \<Rightarrow> int \<Rightarrow> process \<Rightarrow> int \<times> process" where
  "write_leds_priority_from env i p =
     (if i < LED_TYPE_LAST then
        (if state (g_led_states p ! nat i) \<noteq> LED_LIGHT_OFF
         then write_leds env (g_led_states p ! nat i) p
         else write_leds_priority_from env (i + 1) p)
      else write_leds env (g_led_states p ! nat (LED_TYPE_LAST - 1)) p)"
  by pat_completeness auto
termination
  by (relation "measure (\<lambda>(env, i, p). nat (LED_TYPE_LAST - i))") auto

definition write_leds_priority :: "os_env \<Rightarrow> process \<Rightarrow> int \<times> process" where
  "write_leds_priority env p = write_leds_priority_from env 0 p"

text \<open>
  Lines 175 to 205 of \<open>set_light_leds\<close>: what is written through \<open>led_state\<close>, and the
  value of the early \<open>return\<close> of the \<open>switch\<close> when it is taken. The durations are
  computed in \<open>int\<close> and stored in 16 bits, the mid brightness in 8 bits.
\<close>

definition fill_led_state :: "light_state_t \<Rightarrow> an30259a_pr_control \<times> int option" where
  "fill_led_state lstate =
     (let led = zero_pr_control
      in if color lstate AND 0xffffff \<noteq> 0 then
           (let led = led\<lparr>led_color := color lstate AND 0x00ffffff\<rparr>;
                led = (if led_color led = 0x00ffffff then led\<lparr>led_color := 0x80ff80\<rparr> else led)
            in if flashMode lstate = LIGHT_FLASH_NONE then
                 (led\<lparr>state := LED_LIGHT_ON\<rparr>, None)
               else if flashMode lstate = LIGHT_FLASH_TIMED
                       \<or> flashMode lstate = LIGHT_FLASH_HARDWARE then
                 (led\<lparr>state := LED_LIGHT_SLOPE,
                      time_slope_up_1 := ucast (c_div (SLOPE_UP_1 * flashOnMS lstate) 1000),
                      time_slope_up_2 := ucast (c_div (SLOPE_UP_2 * flashOnMS lstate) 1000),
                      time_slope_down_1 := ucast (c_div (SLOPE_DOWN_1 * flashOnMS lstate) 1000),
                      time_slope_down_2 := ucast (c_div (SLOPE_DOWN_2 * flashOnMS lstate) 1000),
                      mid_brightness := ucast MID_BRIGHTNESS,
                      time_off := ucast (flashOffMS lstate)\<rparr>, None)
               else (led, Some (- EINVAL)))
         else (led\<lparr>state := LED_LIGHT_OFF\<rparr>, None))"

text \<open>
  \<open>led_state\<close> points into \<open>g_led_states\<close>, so the array holds the descriptor on every
  path that leaves the function after the range check, the early return included.
\<close>

definition set_light_leds :: "os_env \<Rightarrow> light_state_t \<Rightarrow> int \<Rightarrow> process \<Rightarrow> int \<times> process" where
  "set_light_leds env lstate ty p =
     (if ty < 0 \<or> ty \<ge> LED_TYPE_LAST then (- EINVAL, p)
      else
        (let (led, early) = fill_led_state lstate;
             p = p\<lparr>g_led_states := (g_led_states p)[nat ty := led]\<rparr>
         in case early of
              Some e \<Rightarrow> (e, p)
            | None \<Rightarrow> write_leds_priority env p))"

definition set_light_leds_notifications ::
  "os_env \<Rightarrow> light_state_t \<Rightarrow> process \<Rightarrow> int \<times> process" where
  "set_light_leds_notifications env lstate p = set_light_leds env lstate LED_TYPE_NOTIFICATION p"

definition set_light_leds_attention ::
  "os_env \<Rightarrow> light_state_t \<Rightarrow> process \<Rightarrow> int \<times> process" where
  "set_light_leds_attention env lstate p =
     (let attention_state = lstate;
          attention_state =
            (if flashMode attention_state = LIGHT_FLASH_NONE
             then attention_state\<lparr>color := 0\<rparr> else attention_state)
      in set_light_leds env attention_state LED_TYPE_ATTENTION p)"

definition set_light_leds_battery ::
  "os_env \<Rightarrow> light_state_t \<Rightarrow> process \<Rightarrow> int \<times> process" where
  "set_light_leds_battery env lstate p = set_light_leds env lstate LED_TYPE_CHARGING p"


subsection \<open>Concrete kernels and the process at start\<close>

text \<open>A kernel that grants every call, and one where the device node is absent (ENOENT).\<close>

definition kernel_ok :: os_env where
  "kernel_ok = \<lparr>open_fd = 3, open_errno = 0, write_amt = 4, write_errno = 0,
                 ioctl_imax_ret = 0, ioctl_led_ret = 0\<rparr>"

definition kernel_no_device :: os_env where
  "kernel_no_device = \<lparr>open_fd = - 1, open_errno = 2, write_amt = 0, write_errno = 0,
                        ioctl_imax_ret = 0, ioctl_led_ret = 0\<rparr>"

text \<open>The process after \<open>pthread_once(&g_init, init_g_lock)\<close>, before any call.\<close>

definition fresh :: process where
  "fresh = init_g_lock \<lparr>g_led_states = [], syscalls = []\<rparr>"

subsection \<open>The invariant of an off descriptor\<close>

text \<open>
  The invariant the spec gives for a stored descriptor, in its words: when the activation
  is Off, the color, the four slope durations and the mid brightness are zero. The array
  satisfies it when each of its descriptors does.
\<close>

definition off_zeroed :: "an30259a_pr_control \<Rightarrow> bool" where
  "off_zeroed d =
     (if state d = LED_LIGHT_OFF
      then led_color d = 0 \<and> time_slope_up_1 d = 0 \<and> time_slope_up_2 d = 0
           \<and> time_slope_down_1 d = 0 \<and> time_slope_down_2 d = 0 \<and> mid_brightness d = 0
      else True)"

definition store_inv :: "process \<Rightarrow> bool" where
  "store_inv p = list_all off_zeroed (g_led_states p)"

section \<open>Auxiliary facts\<close>

lemmas lights_consts =
  LIGHT_FLASH_NONE_def LIGHT_FLASH_TIMED_def LIGHT_FLASH_HARDWARE_def
  LED_LIGHT_OFF_def LED_LIGHT_ON_def LED_LIGHT_PULSE_def LED_LIGHT_SLOPE_def EINVAL_def
  IMAX_def SLOPE_UP_1_def SLOPE_UP_2_def SLOPE_DOWN_1_def SLOPE_DOWN_2_def MID_BRIGHTNESS_def
  LED_TYPE_ATTENTION_def LED_TYPE_NOTIFICATION_def LED_TYPE_CHARGING_def LED_TYPE_LAST_def

lemma fresh_eq:
  "fresh = \<lparr>g_led_states = [zero_pr_control, zero_pr_control, zero_pr_control], syscalls = []\<rparr>"
  by (simp add: fresh_def init_g_lock_def LED_TYPE_LAST_def numeral_3_eq_3)

subsection \<open>The device write leaves the array alone\<close>

lemma write_leds_g_led_states:
  "g_led_states (snd (write_leds env led p)) = g_led_states p"
  by (simp add: write_leds_def issue_def)


text \<open>The loop runs at most three times; unrolled, it is a chain of three tests.\<close>

lemma write_leds_priority_unfold:
  "write_leds_priority env p =
     write_leds env
       (if state (g_led_states p ! 0) \<noteq> LED_LIGHT_OFF then g_led_states p ! 0
        else if state (g_led_states p ! 1) \<noteq> LED_LIGHT_OFF then g_led_states p ! 1
        else g_led_states p ! 2) p"
  unfolding write_leds_priority_def
  apply (subst write_leds_priority_from.simps)
  apply (subst write_leds_priority_from.simps)
  apply (subst write_leds_priority_from.simps)
  apply (subst write_leds_priority_from.simps)
  apply (simp add: LED_TYPE_LAST_def)
  done

lemma write_leds_priority_g_led_states:
  "g_led_states (snd (write_leds_priority env p)) = g_led_states p"
  by (simp only: write_leds_priority_unfold write_leds_g_led_states)

lemma set_light_leds_g_led_states:
  assumes "0 \<le> ty" and "ty < LED_TYPE_LAST"
  shows "g_led_states (snd (set_light_leds env lstate ty p)) =
           (g_led_states p)[nat ty := fst (fill_led_state lstate)]"
proof (cases "fill_led_state lstate")
  case (Pair led early)
  with assms show ?thesis
    by (cases early) (simp_all add: set_light_leds_def write_leds_priority_g_led_states)
qed

lemmas lights_eval =
  lights_consts fresh_eq kernel_ok_def kernel_no_device_def set_light_leds_def fill_led_state_def
  write_leds_priority_unfold write_leds_def issue_def zero_pr_control_def c_div_def
  signed_divide_int_def Let_def

subsection \<open>What is written through \<open>led_state\<close>\<close>

lemma fill_led_state_zero_color:
  "color lstate AND 0xffffff = 0 \<Longrightarrow>
     fill_led_state lstate = (zero_pr_control\<lparr>state := LED_LIGHT_OFF\<rparr>, None)"
  by (simp add: fill_led_state_def)

lemma fill_led_state_slope:
  assumes "color lstate AND 0xffffff \<noteq> 0"
    and "flashMode lstate = LIGHT_FLASH_TIMED \<or> flashMode lstate = LIGHT_FLASH_HARDWARE"
  shows "fill_led_state lstate =
     ((if color lstate AND 0xffffff = 0xffffff
       then zero_pr_control\<lparr>led_color := 0x80ff80\<rparr>
       else zero_pr_control\<lparr>led_color := color lstate AND 0xffffff\<rparr>)
        \<lparr>state := LED_LIGHT_SLOPE,
         time_slope_up_1 := ucast (c_div (450 * flashOnMS lstate) 1000),
         time_slope_up_2 := ucast (c_div (50 * flashOnMS lstate) 1000),
         time_slope_down_1 := ucast (c_div (50 * flashOnMS lstate) 1000),
         time_slope_down_2 := ucast (c_div (450 * flashOnMS lstate) 1000),
         mid_brightness := 31,
         time_off := ucast (flashOffMS lstate)\<rparr>, None)"
proof -
  have not_none: "flashMode lstate \<noteq> LIGHT_FLASH_NONE"
    using assms(2)
    by (auto simp add: LIGHT_FLASH_NONE_def LIGHT_FLASH_TIMED_def LIGHT_FLASH_HARDWARE_def)
  show ?thesis
    using assms not_none
    by (simp add: fill_led_state_def Let_def SLOPE_UP_1_def SLOPE_UP_2_def SLOPE_DOWN_1_def
        SLOPE_DOWN_2_def MID_BRIGHTNESS_def)
qed

lemma fill_led_state_early:
  "snd (fill_led_state lstate) = None \<or> snd (fill_led_state lstate) = Some (- EINVAL)"
  by (simp add: fill_led_state_def Let_def)

section \<open>Arbitration between the virtual LEDs\<close>




section \<open>Setting a virtual LED\<close>

text \<open>
  Claim C2. When the request's \<open>flashMode\<close> is \<open>LIGHT_FLASH_NONE\<close>,
  \<open>set_light_leds_attention\<close> is \<open>set_light_leds\<close> on the request with its color
  replaced by 0, and afterwards the Attention slot is the zeroed descriptor, whose state is
  \<open>LED_LIGHT_OFF\<close>, whatever color the caller gave.
\<close>

theorem set_light_leds_attention_cancel:
  assumes "flashMode lstate = LIGHT_FLASH_NONE"
    and "length (g_led_states p) = nat LED_TYPE_LAST"
  shows "set_light_leds_attention env lstate p
           = set_light_leds env (lstate\<lparr>color := 0\<rparr>) LED_TYPE_ATTENTION p
    \<and> state (g_led_states (snd (set_light_leds_attention env lstate p)) ! nat LED_TYPE_ATTENTION)
           = LED_LIGHT_OFF
    \<and> g_led_states (snd (set_light_leds_attention env lstate p)) ! nat LED_TYPE_ATTENTION
           = zero_pr_control"
proof -
  have eq: "set_light_leds_attention env lstate p
           = set_light_leds env (lstate\<lparr>color := 0\<rparr>) LED_TYPE_ATTENTION p"
    using assms(1) by (simp add: set_light_leds_attention_def)
  have "0 \<le> LED_TYPE_ATTENTION" "LED_TYPE_ATTENTION < LED_TYPE_LAST"
    by (simp_all add: LED_TYPE_ATTENTION_def LED_TYPE_LAST_def)
  moreover have "nat LED_TYPE_ATTENTION < length (g_led_states p)"
    using assms(2) by (simp add: LED_TYPE_ATTENTION_def LED_TYPE_LAST_def)
  ultimately show ?thesis
    unfolding eq
    by (simp add: set_light_leds_g_led_states fill_led_state_zero_color
        zero_pr_control_def LED_LIGHT_OFF_def)
qed

theorem set_light_leds_attention_cancel_witness:
  "flashMode \<lparr>color = 0xFF0000, flashMode = LIGHT_FLASH_NONE, flashOnMS = 0, flashOffMS = 0,
              brightnessMode = 0\<rparr> = LIGHT_FLASH_NONE
   \<and> length (g_led_states
        \<lparr>g_led_states = [zero_pr_control\<lparr>led_color := 0xFF, state := LED_LIGHT_ON\<rparr>,
                          zero_pr_control, zero_pr_control], syscalls = []\<rparr>) = nat LED_TYPE_LAST
   \<and> g_led_states (snd (set_light_leds_attention kernel_ok
        \<lparr>color = 0xFF0000, flashMode = LIGHT_FLASH_NONE, flashOnMS = 0, flashOffMS = 0,
         brightnessMode = 0\<rparr>
        \<lparr>g_led_states = [zero_pr_control\<lparr>led_color := 0xFF, state := LED_LIGHT_ON\<rparr>,
                          zero_pr_control, zero_pr_control], syscalls = []\<rparr>))
        ! nat LED_TYPE_ATTENTION = zero_pr_control"
  (is "?mode \<and> ?len \<and> ?slot")
proof -
  have mode: ?mode by simp
  have len: ?len by (simp add: LED_TYPE_LAST_def)
  have ?slot
    by (rule set_light_leds_attention_cancel [OF mode len, THEN conjunct2, THEN conjunct2])
  with mode len show ?thesis by blast
qed

text \<open>
  Claim C3. When the low 24 bits of the request's color are 0, \<open>set_light_leds\<close> on a
  valid channel leaves in that channel's slot a descriptor with state \<open>LED_LIGHT_OFF\<close>
  whose color, durations and mid brightness are all 0. Nothing is assumed of
  \<open>flashMode\<close>: it may be any 32-bit value.
\<close>

theorem set_light_leds_zero_color_off:
  assumes "color lstate AND 0xFFFFFF = 0"
    and "0 \<le> ty" and "ty < LED_TYPE_LAST"
    and "length (g_led_states p) = nat LED_TYPE_LAST"
  shows "state (g_led_states (snd (set_light_leds env lstate ty p)) ! nat ty) = LED_LIGHT_OFF
    \<and> g_led_states (snd (set_light_leds env lstate ty p)) ! nat ty =
        \<lparr>led_color = 0, state = LED_LIGHT_OFF, start_delay = 0, time_slope_up_1 = 0,
         time_slope_up_2 = 0, time_on = 0, time_slope_down_1 = 0, time_slope_down_2 = 0,
         time_off = 0, mid_brightness = 0\<rparr>"
proof -
  have "nat ty < length (g_led_states p)" using assms by simp
  then show ?thesis
    using assms
    by (simp add: set_light_leds_g_led_states fill_led_state_zero_color
        zero_pr_control_def LED_LIGHT_OFF_def)
qed

theorem set_light_leds_zero_color_off_witness:
  "color \<lparr>color = 0xFF000000, flashMode = 9, flashOnMS = 500, flashOffMS = 500,
          brightnessMode = 0\<rparr> AND 0xFFFFFF = 0
   \<and> 0 \<le> LED_TYPE_CHARGING \<and> LED_TYPE_CHARGING < LED_TYPE_LAST
   \<and> length (g_led_states
        \<lparr>g_led_states = [zero_pr_control, zero_pr_control,
                          zero_pr_control\<lparr>led_color := 0xFF00, state := LED_LIGHT_ON\<rparr>],
         syscalls = []\<rparr>) = nat LED_TYPE_LAST
   \<and> state (g_led_states (snd (set_light_leds kernel_ok
        \<lparr>color = 0xFF000000, flashMode = 9, flashOnMS = 500, flashOffMS = 500,
         brightnessMode = 0\<rparr> LED_TYPE_CHARGING
        \<lparr>g_led_states = [zero_pr_control, zero_pr_control,
                          zero_pr_control\<lparr>led_color := 0xFF00, state := LED_LIGHT_ON\<rparr>],
         syscalls = []\<rparr>)) ! nat LED_TYPE_CHARGING) = LED_LIGHT_OFF"
  (is "?color \<and> ?lo \<and> ?hi \<and> ?len \<and> ?off")
proof -
  have color: ?color by simp
  have lo: ?lo and hi: ?hi by (simp_all add: LED_TYPE_CHARGING_def LED_TYPE_LAST_def)
  have len: ?len by (simp add: LED_TYPE_LAST_def)
  have ?off
    by (rule set_light_leds_zero_color_off [OF color lo hi len, THEN conjunct1])
  with color lo hi len show ?thesis by blast
qed

text \<open>
  Claim C4, as amended. When the low 24 bits of the request's color are not 0 and the
  request's \<open>flashMode\<close> is none of \<open>LIGHT_FLASH_NONE\<close>, \<open>LIGHT_FLASH_TIMED\<close> and
  \<open>LIGHT_FLASH_HARDWARE\<close>, \<open>set_light_leds\<close> returns \<open>-EINVAL\<close> and makes no system
  call. (With a color whose low 24 bits are 0 the flash mode is never looked at.)
\<close>

theorem set_light_leds_unknown_flash_mode:
  assumes "color lstate AND 0xFFFFFF \<noteq> 0"
    and "flashMode lstate \<notin> {LIGHT_FLASH_NONE, LIGHT_FLASH_TIMED, LIGHT_FLASH_HARDWARE}"
  shows "fst (set_light_leds env lstate ty p) = - EINVAL
    \<and> syscalls (snd (set_light_leds env lstate ty p)) = syscalls p"
proof -
  have "snd (fill_led_state lstate) = Some (- EINVAL)"
    using assms by (simp add: fill_led_state_def Let_def)
  then obtain led where "fill_led_state lstate = (led, Some (- EINVAL))"
    by (cases "fill_led_state lstate") simp
  then show ?thesis
    by (simp add: set_light_leds_def)
qed

theorem set_light_leds_unknown_flash_mode_witness:
  "color \<lparr>color = 0x00FF00, flashMode = 7, flashOnMS = 0, flashOffMS = 0,
          brightnessMode = 0\<rparr> AND 0xFFFFFF \<noteq> 0
   \<and> flashMode \<lparr>color = 0x00FF00, flashMode = 7, flashOnMS = 0, flashOffMS = 0,
          brightnessMode = 0\<rparr> \<notin> {LIGHT_FLASH_NONE, LIGHT_FLASH_TIMED, LIGHT_FLASH_HARDWARE}
   \<and> fst (set_light_leds kernel_ok
        \<lparr>color = 0x00FF00, flashMode = 7, flashOnMS = 0, flashOffMS = 0, brightnessMode = 0\<rparr>
        LED_TYPE_NOTIFICATION fresh) = - EINVAL"
  (is "?color \<and> ?mode \<and> ?ret")
proof -
  have color: ?color by simp
  have mode: ?mode
    by (simp add: LIGHT_FLASH_NONE_def LIGHT_FLASH_TIMED_def LIGHT_FLASH_HARDWARE_def)
  have ?ret
    by (rule set_light_leds_unknown_flash_mode [OF color mode, THEN conjunct1])
  with color mode show ?thesis by blast
qed

text \<open>
  Claim C4 as stated fails: a request with flash mode 7 and color 0 is accepted. The
  Notification slot is set to off, the device is written and the call returns 0.
\<close>

theorem set_light_leds_unknown_flash_mode_counterexample:
  "flashMode \<lparr>color = 0, flashMode = 7, flashOnMS = 0, flashOffMS = 0, brightnessMode = 0\<rparr>
     \<notin> {LIGHT_FLASH_NONE, LIGHT_FLASH_TIMED, LIGHT_FLASH_HARDWARE}
   \<and> fst (set_light_leds kernel_ok
        \<lparr>color = 0, flashMode = 7, flashOnMS = 0, flashOffMS = 0, brightnessMode = 0\<rparr>
        LED_TYPE_NOTIFICATION fresh) = 0
   \<and> fst (set_light_leds kernel_ok
        \<lparr>color = 0, flashMode = 7, flashOnMS = 0, flashOffMS = 0, brightnessMode = 0\<rparr>
        LED_TYPE_NOTIFICATION fresh) \<noteq> - EINVAL"
  by (simp add: lights_eval)

subsection \<open>The invariant on the paths that store a state\<close>

lemma fill_led_state_off_zeroed:
  "snd (fill_led_state lstate) = None \<Longrightarrow> off_zeroed (fst (fill_led_state lstate))"
  by (auto simp add: fill_led_state_def Let_def off_zeroed_def zero_pr_control_def
      LED_LIGHT_OFF_def LED_LIGHT_ON_def LED_LIGHT_SLOPE_def split: if_splits)

lemma store_inv_fresh: "store_inv fresh"
  by (simp add: store_inv_def fresh_eq off_zeroed_def zero_pr_control_def)

lemma set_light_leds_keeps_store_inv:
  assumes "store_inv p" and "snd (fill_led_state lstate) = None"
  shows "store_inv (snd (set_light_leds env lstate ty p))"
proof (cases "ty < 0 \<or> ty \<ge> LED_TYPE_LAST")
  case True
  with assms(1) show ?thesis by (simp add: set_light_leds_def)
next
  case False
  then have valid: "0 \<le> ty" "ty < LED_TYPE_LAST" by simp_all
  have "set ((g_led_states p)[nat ty := fst (fill_led_state lstate)])
          \<subseteq> insert (fst (fill_led_state lstate)) (set (g_led_states p))"
    by (rule set_update_subset_insert)
  moreover have "off_zeroed (fst (fill_led_state lstate))"
    by (rule fill_led_state_off_zeroed [OF assms(2)])
  moreover have "\<forall>d \<in> set (g_led_states p). off_zeroed d"
    using assms(1) by (simp add: store_inv_def list_all_iff)
  ultimately have "\<forall>d \<in> set ((g_led_states p)[nat ty := fst (fill_led_state lstate)]). off_zeroed d"
    by blast
  then show ?thesis
    by (simp add: store_inv_def list_all_iff set_light_leds_g_led_states [OF valid])
qed

text \<open>
  Claim C5. The invariant reads: a stored descriptor whose state is \<open>LED_LIGHT_OFF\<close> has
  color, durations and mid brightness 0. It holds of the zeroed array at start, and every
  call that stores a state keeps it (\<open>set_light_leds_keeps_store_inv\<close>). A request with
  a color and an unknown flash mode breaks it: \<open>set_light_leds\<close> zeroes the slot,
  stores the color, and returns \<open>-EINVAL\<close> from the \<open>switch\<close> before any state is
  stored, so the slot keeps state 0, which is \<open>LED_LIGHT_OFF\<close>, next to the color
  \<open>0xFF0000\<close>. The device is not written on this path.
\<close>

theorem set_light_leds_error_leaves_color_in_off_slot:
  "store_inv fresh
   \<and> \<not> store_inv (snd (set_light_leds kernel_ok
        \<lparr>color = 0xFF0000, flashMode = 7, flashOnMS = 0, flashOffMS = 0, brightnessMode = 0\<rparr>
        LED_TYPE_NOTIFICATION fresh))
   \<and> fst (set_light_leds kernel_ok
        \<lparr>color = 0xFF0000, flashMode = 7, flashOnMS = 0, flashOffMS = 0, brightnessMode = 0\<rparr>
        LED_TYPE_NOTIFICATION fresh) = - EINVAL
   \<and> state (g_led_states (snd (set_light_leds kernel_ok
        \<lparr>color = 0xFF0000, flashMode = 7, flashOnMS = 0, flashOffMS = 0, brightnessMode = 0\<rparr>
        LED_TYPE_NOTIFICATION fresh)) ! nat LED_TYPE_NOTIFICATION) = LED_LIGHT_OFF
   \<and> led_color (g_led_states (snd (set_light_leds kernel_ok
        \<lparr>color = 0xFF0000, flashMode = 7, flashOnMS = 0, flashOffMS = 0, brightnessMode = 0\<rparr>
        LED_TYPE_NOTIFICATION fresh)) ! nat LED_TYPE_NOTIFICATION) = 0xFF0000"
  by (simp add: lights_eval store_inv_def off_zeroed_def)

text \<open>
  Claim C10. \<open>set_light_leds\<close> on a valid channel changes no slot but that channel's:
  every other index reads as before and the array keeps its length, for every kernel and
  every request, the rejected ones included.
\<close>

theorem set_light_leds_frame:
  assumes "0 \<le> ty" and "ty < LED_TYPE_LAST" and "i \<noteq> nat ty"
  shows "g_led_states (snd (set_light_leds env lstate ty p)) ! i = g_led_states p ! i
    \<and> length (g_led_states (snd (set_light_leds env lstate ty p))) = length (g_led_states p)"
  using assms by (simp add: set_light_leds_g_led_states)

theorem set_light_leds_frame_witness:
  "0 \<le> LED_TYPE_ATTENTION \<and> LED_TYPE_ATTENTION < LED_TYPE_LAST
   \<and> (2 :: nat) \<noteq> nat LED_TYPE_ATTENTION
   \<and> g_led_states (snd (set_light_leds kernel_no_device
        \<lparr>color = 0xFF0000, flashMode = LIGHT_FLASH_TIMED, flashOnMS = 500, flashOffMS = 500,
         brightnessMode = 0\<rparr> LED_TYPE_ATTENTION
        \<lparr>g_led_states = [zero_pr_control, zero_pr_control,
                          zero_pr_control\<lparr>led_color := 0xFF00, state := LED_LIGHT_ON\<rparr>],
         syscalls = []\<rparr>)) ! 2
       = g_led_states
        \<lparr>g_led_states = [zero_pr_control, zero_pr_control,
                          zero_pr_control\<lparr>led_color := 0xFF00, state := LED_LIGHT_ON\<rparr>],
         syscalls = []\<rparr> ! 2"
  (is "?lo \<and> ?hi \<and> ?other \<and> ?same")
proof -
  have lo: ?lo and hi: ?hi and other: ?other
    by (simp_all add: LED_TYPE_ATTENTION_def LED_TYPE_LAST_def)
  have ?same
    by (rule set_light_leds_frame [OF lo hi other, THEN conjunct1])
  with lo hi other show ?thesis by blast
qed

text \<open>
  Claim C7. For a valid channel and a request whose \<open>flashMode\<close> is one of the three
  known modes, the descriptor is written in full (there is no early return) and the
  channel's slot holds it when \<open>set_light_leds\<close> returns, whatever the kernel answers to
  the device write. In particular, when the device node cannot be opened the call returns
  \<open>-errno\<close> and the slot holds the new descriptor all the same.
\<close>

theorem set_light_leds_stores_before_write:
  assumes "0 \<le> ty" and "ty < LED_TYPE_LAST"
    and "length (g_led_states p) = nat LED_TYPE_LAST"
    and "flashMode lstate \<in> {LIGHT_FLASH_NONE, LIGHT_FLASH_TIMED, LIGHT_FLASH_HARDWARE}"
  shows "snd (fill_led_state lstate) = None
    \<and> g_led_states (snd (set_light_leds env lstate ty p)) ! nat ty = fst (fill_led_state lstate)
    \<and> (open_fd env < 0 \<longrightarrow> fst (set_light_leds env lstate ty p) = - open_errno env)"
proof -
  have complete: "snd (fill_led_state lstate) = None"
    using assms(4) by (auto simp add: fill_led_state_def Let_def)
  then obtain led where led: "fill_led_state lstate = (led, None)"
    by (cases "fill_led_state lstate") simp
  have "nat ty < length (g_led_states p)" using assms(1-3) by simp
  then have slot: "g_led_states (snd (set_light_leds env lstate ty p)) ! nat ty
                     = fst (fill_led_state lstate)"
    using assms(1,2) by (simp add: set_light_leds_g_led_states)
  have "fst (set_light_leds env lstate ty p) = - open_errno env" if "open_fd env < 0"
    using that assms(1,2) led
    by (simp add: set_light_leds_def write_leds_priority_unfold write_leds_def)
  with complete slot show ?thesis by blast
qed

theorem set_light_leds_stores_before_write_witness:
  "0 \<le> LED_TYPE_ATTENTION \<and> LED_TYPE_ATTENTION < LED_TYPE_LAST
   \<and> length (g_led_states fresh) = nat LED_TYPE_LAST
   \<and> flashMode \<lparr>color = 0xFF0000, flashMode = LIGHT_FLASH_TIMED, flashOnMS = 1000,
          flashOffMS = 2000, brightnessMode = 0\<rparr>
        \<in> {LIGHT_FLASH_NONE, LIGHT_FLASH_TIMED, LIGHT_FLASH_HARDWARE}
   \<and> open_fd kernel_no_device < 0
   \<and> fst (set_light_leds kernel_no_device
        \<lparr>color = 0xFF0000, flashMode = LIGHT_FLASH_TIMED, flashOnMS = 1000, flashOffMS = 2000,
         brightnessMode = 0\<rparr> LED_TYPE_ATTENTION fresh) = - 2
   \<and> g_led_states (snd (set_light_leds kernel_no_device
        \<lparr>color = 0xFF0000, flashMode = LIGHT_FLASH_TIMED, flashOnMS = 1000, flashOffMS = 2000,
         brightnessMode = 0\<rparr> LED_TYPE_ATTENTION fresh)) ! nat LED_TYPE_ATTENTION
       = \<lparr>led_color = 0xFF0000, state = LED_LIGHT_SLOPE, start_delay = 0,
          time_slope_up_1 = 450, time_slope_up_2 = 50, time_on = 0, time_slope_down_1 = 50,
          time_slope_down_2 = 450, time_off = 2000, mid_brightness = 31\<rparr>"
  (is "?lo \<and> ?hi \<and> ?len \<and> ?mode \<and> ?closed \<and> ?ret \<and> ?slot")
proof -
  have lo: ?lo and hi: ?hi by (simp_all add: LED_TYPE_ATTENTION_def LED_TYPE_LAST_def)
  have len: ?len by (simp add: fresh_eq LED_TYPE_LAST_def)
  have mode: ?mode by simp
  have closed: ?closed by (simp add: kernel_no_device_def)
  note stored = set_light_leds_stores_before_write [OF lo hi len mode, of kernel_no_device]
  have ?ret
    using stored closed by (simp add: kernel_no_device_def)
  moreover have ?slot
    using stored by (simp add: lights_eval)
  ultimately show ?thesis using lo hi len mode closed by blast
qed

section \<open>The blink descriptor\<close>

subsection \<open>Durations that fit their fields\<close>

lemma sint_scaled_450:
  fixes x :: "32 word"
  assumes "- 2 \<le> sint x" and "sint x \<le> 145635"
  shows "sint (450 * x) = 450 * sint x"
  using assms by (simp add: sint_word_ariths signed_take_bit_int_eq_self)

lemma sint_scaled_50:
  fixes x :: "32 word"
  assumes "- 19 \<le> sint x" and "sint x \<le> 1310719"
  shows "sint (50 * x) = 50 * sint x"
  using assms by (simp add: sint_word_ariths signed_take_bit_int_eq_self)

lemma uint_narrow:
  assumes "0 \<le> k" and "k < 65536"
  shows "uint (ucast (word_of_int k :: 32 word) :: 16 word) = k"
  using assms by (simp add: unsigned_ucast_eq uint_word_of_int_eq take_bit_int_eq_self)

lemma sdiv_1000_nonneg: "0 \<le> k \<Longrightarrow> k sdiv 1000 = k div (1000 :: int)"
  by (simp add: signed_divide_int_def sgn_if)

lemma sdiv_1000_small_neg: "- 1000 < k \<Longrightarrow> k < 0 \<Longrightarrow> k sdiv (1000 :: int) = 0"
  by (simp add: signed_divide_int_def sgn_if)

lemma quotient_450_fits:
  fixes on :: int
  assumes "- 2 \<le> on" and "on \<le> 145635"
  shows "0 \<le> (450 * on) sdiv 1000 \<and> (450 * on) sdiv 1000 < 65536"
proof (cases "0 \<le> on")
  case True
  then have "(450 * on) sdiv 1000 = (450 * on) div 1000" by (simp add: sdiv_1000_nonneg)
  moreover have "0 \<le> (450 * on) div 1000" using True by simp
  moreover have "(450 * on) div 1000 < 65536" using assms(2) by linarith
  ultimately show ?thesis by simp
next
  case False
  with assms(1) have "- 1000 < 450 * on" "450 * on < 0" by linarith+
  then have "(450 * on) sdiv 1000 = 0" by (rule sdiv_1000_small_neg)
  then show ?thesis by simp
qed

lemma quotient_50_fits:
  fixes on :: int
  assumes "- 19 \<le> on" and "on \<le> 1310719"
  shows "0 \<le> (50 * on) sdiv 1000 \<and> (50 * on) sdiv 1000 < 65536"
proof (cases "0 \<le> on")
  case True
  then have "(50 * on) sdiv 1000 = (50 * on) div 1000" by (simp add: sdiv_1000_nonneg)
  moreover have "0 \<le> (50 * on) div 1000" using True by simp
  moreover have "(50 * on) div 1000 < 65536" using assms(2) by linarith
  ultimately show ?thesis by simp
next
  case False
  with assms(1) have "- 1000 < 50 * on" "50 * on < 0" by linarith+
  then have "(50 * on) sdiv 1000 = 0" by (rule sdiv_1000_small_neg)
  then show ?thesis by simp
qed

lemma uint_stored_c_div:
  fixes a :: "32 word"
  assumes "0 \<le> sint a sdiv 1000" and "sint a sdiv 1000 < 65536"
  shows "uint (ucast (c_div a 1000) :: 16 word) = sint a sdiv 1000"
  using assms by (simp add: c_div_def uint_narrow)

lemma uint_stored_off:
  fixes y :: "32 word"
  assumes "0 \<le> sint y" and "sint y \<le> 65535"
  shows "uint (ucast y :: 16 word) = sint y"
proof -
  have "y = word_of_int (sint y)" by simp
  then have "uint (ucast y :: 16 word)
               = uint (ucast (word_of_int (sint y) :: 32 word) :: 16 word)"
    by simp
  also have "\<dots> = sint y" using assms by (intro uint_narrow) simp_all
  finally show ?thesis .
qed

lemma pair_near_half:
  fixes on :: int
  assumes "- 2 \<le> on"
  shows "\<bar>(450 * on) sdiv 1000 + (50 * on) sdiv 1000 - (500 * on) sdiv 1000\<bar> \<le> 1"
proof (cases "0 \<le> on")
  case True
  have "(450 * on) div 1000 + (50 * on) div 1000 \<le> (500 * on) div 1000" by linarith
  moreover have "(500 * on) div 1000 \<le> (450 * on) div 1000 + (50 * on) div 1000 + 1" by linarith
  ultimately show ?thesis using True by (simp add: sdiv_1000_nonneg)
next
  case False
  with assms have "on = - 2 \<or> on = - 1" by linarith
  then show ?thesis by (auto simp add: signed_divide_int_def)
qed

lemma pair_below_half:
  fixes on :: int
  assumes "0 \<le> on"
  shows "(450 * on) sdiv 1000 + (50 * on) sdiv 1000 \<le> (500 * on) sdiv 1000
    \<and> (500 * on) sdiv 1000 \<le> (450 * on) sdiv 1000 + (50 * on) sdiv 1000 + 1"
proof -
  have "(450 * on) div 1000 + (50 * on) div 1000 \<le> (500 * on) div 1000" by linarith
  moreover have "(500 * on) div 1000 \<le> (450 * on) div 1000 + (50 * on) div 1000 + 1" by linarith
  ultimately show ?thesis using assms by (simp add: sdiv_1000_nonneg)
qed

text \<open>
  Claim C6, as amended. For a valid channel and a request with flash mode Timed or
  Hardware and a color whose low 24 bits are not 0, the stored descriptor always has state
  \<open>LED_LIGHT_SLOPE\<close> and mid brightness 31, its first rising duration is its last
  falling one and its second rising duration is its first falling one, so the two rising
  durations always add up to the same as the two falling ones. Below, \<open>sdiv\<close> is the
  division of C, which truncates towards zero. When \<open>-2 \<le> flashOnMS \<le> 145635\<close> the two
  slow durations are \<open>(450 * flashOnMS) / 1000\<close> and each pair differs from
  \<open>(500 * flashOnMS) / 1000\<close> by at most 1 (for \<open>flashOnMS \<ge> 0\<close> it is that value or
  one less); when \<open>-19 \<le> flashOnMS \<le> 1310719\<close> the two fast durations are
  \<open>(50 * flashOnMS) / 1000\<close>; when \<open>0 \<le> flashOffMS \<le> 65535\<close>, \<open>time_off\<close> is
  \<open>flashOffMS\<close>. Each bound is the range in which the value named fits the 16 bits of
  its field.
\<close>

theorem set_light_leds_slope_times:
  assumes "0 \<le> ty" and "ty < LED_TYPE_LAST"
    and "length (g_led_states p) = nat LED_TYPE_LAST"
    and "flashMode lstate = LIGHT_FLASH_TIMED \<or> flashMode lstate = LIGHT_FLASH_HARDWARE"
    and "color lstate AND 0xFFFFFF \<noteq> 0"
  shows "let d = g_led_states (snd (set_light_leds env lstate ty p)) ! nat ty;
             on = sint (flashOnMS lstate);
             off = sint (flashOffMS lstate)
         in state d = LED_LIGHT_SLOPE
          \<and> mid_brightness d = 31
          \<and> time_slope_up_1 d = time_slope_down_2 d
          \<and> time_slope_up_2 d = time_slope_down_1 d
          \<and> uint (time_slope_up_1 d) + uint (time_slope_up_2 d)
              = uint (time_slope_down_1 d) + uint (time_slope_down_2 d)
          \<and> (- 2 \<le> on \<and> on \<le> 145635 \<longrightarrow>
                uint (time_slope_up_1 d) = (450 * on) sdiv 1000
              \<and> uint (time_slope_down_2 d) = (450 * on) sdiv 1000
              \<and> \<bar>uint (time_slope_up_1 d) + uint (time_slope_up_2 d) - (500 * on) sdiv 1000\<bar> \<le> 1)
          \<and> (0 \<le> on \<and> on \<le> 145635 \<longrightarrow>
                uint (time_slope_up_1 d) + uint (time_slope_up_2 d) \<le> (500 * on) sdiv 1000
              \<and> (500 * on) sdiv 1000 \<le> uint (time_slope_up_1 d) + uint (time_slope_up_2 d) + 1)
          \<and> (- 19 \<le> on \<and> on \<le> 1310719 \<longrightarrow>
                uint (time_slope_up_2 d) = (50 * on) sdiv 1000
              \<and> uint (time_slope_down_1 d) = (50 * on) sdiv 1000)
          \<and> (0 \<le> off \<and> off \<le> 65535 \<longrightarrow> uint (time_off d) = off)"
proof -
  define on where "on = sint (flashOnMS lstate)"
  define off where "off = sint (flashOffMS lstate)"
  define d where "d = g_led_states (snd (set_light_leds env lstate ty p)) ! nat ty"
  have in_range: "nat ty < length (g_led_states p)" using assms(1-3) by simp
  have d_eq: "d = fst (fill_led_state lstate)"
    unfolding d_def using assms(1,2) in_range by (simp add: set_light_leds_g_led_states)
  note filled = fill_led_state_slope [OF assms(5,4)]
  have st: "state d = LED_LIGHT_SLOPE" and mid: "mid_brightness d = 31"
    and f_up1: "time_slope_up_1 d = ucast (c_div (450 * flashOnMS lstate) 1000)"
    and f_up2: "time_slope_up_2 d = ucast (c_div (50 * flashOnMS lstate) 1000)"
    and f_down1: "time_slope_down_1 d = ucast (c_div (50 * flashOnMS lstate) 1000)"
    and f_down2: "time_slope_down_2 d = ucast (c_div (450 * flashOnMS lstate) 1000)"
    and f_off: "time_off d = ucast (flashOffMS lstate)"
    unfolding d_eq filled by simp_all
  have sym: "time_slope_up_1 d = time_slope_down_2 d" "time_slope_up_2 d = time_slope_down_1 d"
    by (simp_all add: f_up1 f_up2 f_down1 f_down2)
  have sums: "uint (time_slope_up_1 d) + uint (time_slope_up_2 d)
                = uint (time_slope_down_1 d) + uint (time_slope_down_2 d)"
    by (simp add: sym)
  have slow: "uint (time_slope_up_1 d) = (450 * on) sdiv 1000"
    if "- 2 \<le> on" "on \<le> 145635"
  proof -
    have "sint (450 * flashOnMS lstate) = 450 * on"
      unfolding on_def by (rule sint_scaled_450) (use that in \<open>simp_all add: on_def\<close>)
    moreover note quotient_450_fits [OF that]
    ultimately show ?thesis
      unfolding f_up1 using uint_stored_c_div [of "450 * flashOnMS lstate"] by simp
  qed
  have fast: "uint (time_slope_up_2 d) = (50 * on) sdiv 1000"
    if "- 19 \<le> on" "on \<le> 1310719"
  proof -
    have "sint (50 * flashOnMS lstate) = 50 * on"
      unfolding on_def by (rule sint_scaled_50) (use that in \<open>simp_all add: on_def\<close>)
    moreover note quotient_50_fits [OF that]
    ultimately show ?thesis
      unfolding f_up2 using uint_stored_c_div [of "50 * flashOnMS lstate"] by simp
  qed
  have pair: "uint (time_slope_up_1 d) + uint (time_slope_up_2 d)
                = (450 * on) sdiv 1000 + (50 * on) sdiv 1000"
    if "- 2 \<le> on" "on \<le> 145635"
    using slow [OF that] fast [of] that by simp
  have c_slow: "- 2 \<le> on \<and> on \<le> 145635 \<longrightarrow>
                uint (time_slope_up_1 d) = (450 * on) sdiv 1000
              \<and> uint (time_slope_down_2 d) = (450 * on) sdiv 1000
              \<and> \<bar>uint (time_slope_up_1 d) + uint (time_slope_up_2 d) - (500 * on) sdiv 1000\<bar> \<le> 1"
  proof (intro impI conjI)
    assume b: "- 2 \<le> on \<and> on \<le> 145635"
    then have lo: "- 2 \<le> on" and hi: "on \<le> 145635" by simp_all
    show "uint (time_slope_up_1 d) = (450 * on) sdiv 1000" by (rule slow [OF lo hi])
    then show "uint (time_slope_down_2 d) = (450 * on) sdiv 1000" by (simp add: sym)
    show "\<bar>uint (time_slope_up_1 d) + uint (time_slope_up_2 d) - (500 * on) sdiv 1000\<bar> \<le> 1"
      unfolding pair [OF lo hi] by (rule pair_near_half [OF lo])
  qed
  have c_pair: "0 \<le> on \<and> on \<le> 145635 \<longrightarrow>
                uint (time_slope_up_1 d) + uint (time_slope_up_2 d) \<le> (500 * on) sdiv 1000
              \<and> (500 * on) sdiv 1000 \<le> uint (time_slope_up_1 d) + uint (time_slope_up_2 d) + 1"
  proof
    assume b: "0 \<le> on \<and> on \<le> 145635"
    then have lo: "- 2 \<le> on" and hi: "on \<le> 145635" and nonneg: "0 \<le> on" by simp_all
    show "uint (time_slope_up_1 d) + uint (time_slope_up_2 d) \<le> (500 * on) sdiv 1000
              \<and> (500 * on) sdiv 1000 \<le> uint (time_slope_up_1 d) + uint (time_slope_up_2 d) + 1"
      unfolding pair [OF lo hi] by (rule pair_below_half [OF nonneg])
  qed
  have c_fast: "- 19 \<le> on \<and> on \<le> 1310719 \<longrightarrow>
                uint (time_slope_up_2 d) = (50 * on) sdiv 1000
              \<and> uint (time_slope_down_1 d) = (50 * on) sdiv 1000"
  proof (intro impI conjI)
    assume b: "- 19 \<le> on \<and> on \<le> 1310719"
    then have lo: "- 19 \<le> on" and hi: "on \<le> 1310719" by simp_all
    show "uint (time_slope_up_2 d) = (50 * on) sdiv 1000" by (rule fast [OF lo hi])
    then show "uint (time_slope_down_1 d) = (50 * on) sdiv 1000" by (simp add: sym)
  qed
  have c_off: "0 \<le> off \<and> off \<le> 65535 \<longrightarrow> uint (time_off d) = off"
    unfolding f_off off_def using uint_stored_off [of "flashOffMS lstate"] by simp
  from st mid sym sums c_slow c_pair c_fast c_off show ?thesis
    unfolding Let_def d_def [symmetric] on_def [symmetric] off_def [symmetric] by blast
qed

text \<open>
  A request inside every bound (\<open>flashOnMS = 19\<close>, \<open>flashOffMS = 3000\<close>), where the
  pair is one less than \<open>500 * 19 / 1000 = 9\<close>; and one with a long off time
  (\<open>flashOnMS = 1000\<close>, \<open>flashOffMS = 70000\<close>), whose four durations are still
  450, 50, 50 and 450.
\<close>

theorem set_light_leds_slope_times_witness:
  "0 \<le> LED_TYPE_NOTIFICATION \<and> LED_TYPE_NOTIFICATION < LED_TYPE_LAST
   \<and> length (g_led_states fresh) = nat LED_TYPE_LAST
   \<and> (flashMode \<lparr>color = 0x00FF00, flashMode = LIGHT_FLASH_TIMED, flashOnMS = 19,
          flashOffMS = 3000, brightnessMode = 0\<rparr> = LIGHT_FLASH_TIMED
        \<or> flashMode \<lparr>color = 0x00FF00, flashMode = LIGHT_FLASH_TIMED, flashOnMS = 19,
          flashOffMS = 3000, brightnessMode = 0\<rparr> = LIGHT_FLASH_HARDWARE)
   \<and> color \<lparr>color = 0x00FF00, flashMode = LIGHT_FLASH_TIMED, flashOnMS = 19,
          flashOffMS = 3000, brightnessMode = 0\<rparr> AND 0xFFFFFF \<noteq> 0
   \<and> 0 \<le> sint (19 :: 32 word) \<and> sint (19 :: 32 word) \<le> 145635
   \<and> 0 \<le> sint (3000 :: 32 word) \<and> sint (3000 :: 32 word) \<le> 65535
   \<and> g_led_states (snd (set_light_leds kernel_ok
          \<lparr>color = 0x00FF00, flashMode = LIGHT_FLASH_TIMED, flashOnMS = 19,
           flashOffMS = 3000, brightnessMode = 0\<rparr> LED_TYPE_NOTIFICATION fresh))
          ! nat LED_TYPE_NOTIFICATION
       = \<lparr>led_color = 0x00FF00, state = LED_LIGHT_SLOPE, start_delay = 0,
          time_slope_up_1 = 8, time_slope_up_2 = 0, time_on = 0, time_slope_down_1 = 0,
          time_slope_down_2 = 8, time_off = 3000, mid_brightness = 31\<rparr>
   \<and> uint (time_slope_up_1 (g_led_states (snd (set_light_leds kernel_ok
          \<lparr>color = 0x00FF00, flashMode = LIGHT_FLASH_TIMED, flashOnMS = 19,
           flashOffMS = 3000, brightnessMode = 0\<rparr> LED_TYPE_NOTIFICATION fresh))
          ! nat LED_TYPE_NOTIFICATION)) = 8
   \<and> uint (time_off (g_led_states (snd (set_light_leds kernel_ok
          \<lparr>color = 0x00FF00, flashMode = LIGHT_FLASH_TIMED, flashOnMS = 19,
           flashOffMS = 3000, brightnessMode = 0\<rparr> LED_TYPE_NOTIFICATION fresh))
          ! nat LED_TYPE_NOTIFICATION)) = 3000
   \<and> uint (time_slope_up_1 (g_led_states (snd (set_light_leds kernel_ok
          \<lparr>color = 0x00FF00, flashMode = LIGHT_FLASH_HARDWARE, flashOnMS = 1000,
           flashOffMS = 70000, brightnessMode = 0\<rparr> LED_TYPE_NOTIFICATION fresh))
          ! nat LED_TYPE_NOTIFICATION)) = 450
   \<and> uint (time_slope_up_2 (g_led_states (snd (set_light_leds kernel_ok
          \<lparr>color = 0x00FF00, flashMode = LIGHT_FLASH_HARDWARE, flashOnMS = 1000,
           flashOffMS = 70000, brightnessMode = 0\<rparr> LED_TYPE_NOTIFICATION fresh))
          ! nat LED_TYPE_NOTIFICATION)) = 50"
  (is "?lo \<and> ?hi \<and> ?len \<and> ?mode \<and> ?color \<and> ?on_lo \<and> ?on_hi \<and> ?off_lo \<and> ?off_hi
        \<and> ?slot \<and> ?slow \<and> ?pause \<and> ?long_slow \<and> ?long_fast")
proof -
  have lo: ?lo and hi: ?hi by (simp_all add: LED_TYPE_NOTIFICATION_def LED_TYPE_LAST_def)
  have len: ?len by (simp add: fresh_eq LED_TYPE_LAST_def)
  have mode: ?mode by simp
  have color: ?color by simp
  have on_lo: ?on_lo and on_hi: ?on_hi and off_lo: ?off_lo and off_hi: ?off_hi by simp_all
  note short = set_light_leds_slope_times [OF lo hi len mode color, of kernel_ok]
  have slow: ?slow and pause: ?pause
    using short by (simp_all add: Let_def signed_divide_int_def)
  have slot: ?slot by (simp add: lights_eval)
  have long_mode:
    "flashMode \<lparr>color = 0x00FF00, flashMode = LIGHT_FLASH_HARDWARE, flashOnMS = 1000,
        flashOffMS = 70000, brightnessMode = 0\<rparr> = LIGHT_FLASH_TIMED
     \<or> flashMode \<lparr>color = 0x00FF00, flashMode = LIGHT_FLASH_HARDWARE, flashOnMS = 1000,
        flashOffMS = 70000, brightnessMode = 0\<rparr> = LIGHT_FLASH_HARDWARE"
    by simp
  have long_color:
    "color \<lparr>color = 0x00FF00, flashMode = LIGHT_FLASH_HARDWARE, flashOnMS = 1000,
        flashOffMS = 70000, brightnessMode = 0\<rparr> AND 0xFFFFFF \<noteq> 0"
    by simp
  note long = set_light_leds_slope_times [OF lo hi len long_mode long_color, of kernel_ok]
  have long_slow: ?long_slow and long_fast: ?long_fast
    using long by (simp_all add: Let_def signed_divide_int_def)
  from lo hi len mode color on_lo on_hi off_lo off_hi slot slow pause long_slow long_fast
  show ?thesis by blast
qed

text \<open>
  Claim C6 as stated fails where a value leaves the 16 bits of its field. With
  \<open>flashOnMS = 200000\<close> the first duration is stored as 24464, not 90000, and with
  \<open>flashOffMS = 70000\<close> the off duration is stored as 4464.
\<close>

theorem set_light_leds_slope_times_counterexample:
  "uint (time_slope_up_1 (g_led_states (snd (set_light_leds kernel_ok
      \<lparr>color = 0xFF0000, flashMode = LIGHT_FLASH_TIMED, flashOnMS = 200000,
       flashOffMS = 70000, brightnessMode = 0\<rparr> LED_TYPE_NOTIFICATION fresh))
        ! nat LED_TYPE_NOTIFICATION)) = 24464
   \<and> (450 * sint (200000 :: 32 word)) div 1000 = 90000
   \<and> uint (time_slope_up_1 (g_led_states (snd (set_light_leds kernel_ok
      \<lparr>color = 0xFF0000, flashMode = LIGHT_FLASH_TIMED, flashOnMS = 200000,
       flashOffMS = 70000, brightnessMode = 0\<rparr> LED_TYPE_NOTIFICATION fresh))
        ! nat LED_TYPE_NOTIFICATION))
     \<noteq> (450 * sint (200000 :: 32 word)) div 1000
   \<and> uint (time_off (g_led_states (snd (set_light_leds kernel_ok
      \<lparr>color = 0xFF0000, flashMode = LIGHT_FLASH_TIMED, flashOnMS = 200000,
       flashOffMS = 70000, brightnessMode = 0\<rparr> LED_TYPE_NOTIFICATION fresh))
        ! nat LED_TYPE_NOTIFICATION)) = 4464
   \<and> uint (time_off (g_led_states (snd (set_light_leds kernel_ok
      \<lparr>color = 0xFF0000, flashMode = LIGHT_FLASH_TIMED, flashOnMS = 200000,
       flashOffMS = 70000, brightnessMode = 0\<rparr> LED_TYPE_NOTIFICATION fresh))
        ! nat LED_TYPE_NOTIFICATION))
     \<noteq> sint (70000 :: 32 word)"
  by (simp add: lights_eval)

section \<open>The device write\<close>

text \<open>
  Claim C8, as amended. When the device opens, \<open>write_leds\<close> issues both control
  operations in order, the maximum current and then the descriptor, whatever the first one
  returns, and closes the device; the value returned is the result of the second, the
  descriptor's. So a failure of the descriptor operation reaches the caller, and a
  failure of the maximum-current operation alone does not; it is only logged.
\<close>

theorem write_leds_returns_last_result:
  assumes "0 \<le> open_fd env"
  shows "syscalls (snd (write_leds env led p))
           = syscalls p @ [SysOpen LED_FILE, SysIoctlSetImax IMAX, SysIoctlSetLed led, SysClose]
    \<and> fst (write_leds env led p) = ioctl_led_ret env"
  using assms by (simp add: write_leds_def issue_def)

theorem write_leds_returns_last_result_witness:
  "0 \<le> open_fd \<lparr>open_fd = 3, open_errno = 0, write_amt = 0, write_errno = 0,
                  ioctl_imax_ret = - 1, ioctl_led_ret = - 1\<rparr>
   \<and> fst (write_leds \<lparr>open_fd = 3, open_errno = 0, write_amt = 0, write_errno = 0,
                       ioctl_imax_ret = - 1, ioctl_led_ret = - 1\<rparr> zero_pr_control fresh) = - 1
   \<and> syscalls (snd (write_leds \<lparr>open_fd = 3, open_errno = 0, write_amt = 0, write_errno = 0,
                       ioctl_imax_ret = - 1, ioctl_led_ret = - 1\<rparr> zero_pr_control fresh))
       = [SysOpen LED_FILE, SysIoctlSetImax IMAX, SysIoctlSetLed zero_pr_control, SysClose]"
  (is "?opened \<and> ?ret \<and> ?calls")
proof -
  have opened: ?opened by simp
  note last = write_leds_returns_last_result [OF opened, of zero_pr_control fresh]
  have ?ret using last by simp
  moreover have ?calls using last by (simp add: fresh_eq)
  ultimately show ?thesis using opened by blast
qed

text \<open>
  Claim C8 as stated fails in its last part: when the maximum-current operation fails
  (\<open>ioctl\<close> returns -1) and the descriptor operation succeeds, \<open>write_leds\<close> returns 0,
  so the first error has become a success for the caller.
\<close>

theorem write_leds_returns_last_result_counterexample:
  "0 \<le> open_fd \<lparr>open_fd = 3, open_errno = 0, write_amt = 0, write_errno = 0,
                  ioctl_imax_ret = - 1, ioctl_led_ret = 0\<rparr>
   \<and> ioctl_imax_ret \<lparr>open_fd = 3, open_errno = 0, write_amt = 0, write_errno = 0,
                  ioctl_imax_ret = - 1, ioctl_led_ret = 0\<rparr> \<noteq> 0
   \<and> fst (write_leds \<lparr>open_fd = 3, open_errno = 0, write_amt = 0, write_errno = 0,
                  ioctl_imax_ret = - 1, ioctl_led_ret = 0\<rparr> zero_pr_control fresh) = 0"
  by (simp add: write_leds_def)

section \<open>The backlight brightness\<close>

subsection \<open>Reading the words as numbers\<close>

lemma signed_drop_bit_nonneg:
  "\<not> bit w 31 \<Longrightarrow> signed_drop_bit n (w :: 32 word) = drop_bit n w"
  by (rule bit_word_eqI) (auto simp add: bit_simps dest: bit_imp_le_length)

lemma mask24: "(0xffffff :: 32 word) = mask 24"
  by (simp add: mask_eq_exp_minus_1)

lemma mask8: "(0xff :: 32 word) = mask 8"
  by (simp add: mask_eq_exp_minus_1)

lemma masked_no_msb: "\<not> bit ((w :: 32 word) AND 0xffffff) 31"
  unfolding mask24 by (simp add: bit_simps)

lemma uint_byte: "uint ((w :: 32 word) AND 0xff) = uint w mod 256"
  unfolding mask8 by (simp add: uint_mod_distrib take_bit_eq_mod flip: take_bit_eq_mask)

lemma uint_drop8: "uint (drop_bit 8 (w :: 32 word)) = uint w div 256"
  by (simp add: drop_bit_eq_div uint_div_distrib)

lemma uint_drop16: "uint (drop_bit 16 (w :: 32 word)) = uint w div 65536"
  by (simp add: drop_bit_eq_div uint_div_distrib)

lemma sint_eq_uint_small: "uint (w :: 32 word) < 2 ^ 31 \<Longrightarrow> sint w = uint w"
proof -
  assume small: "uint w < 2 ^ 31"
  have "- (2 ^ 31) \<le> (0 :: int)" by simp
  also have "0 \<le> uint w" by simp
  finally show ?thesis using small by (simp add: sint_uint signed_take_bit_int_eq_self_iff)
qed

lemma no_msb_small: "uint (w :: 32 word) < 2 ^ 31 \<Longrightarrow> \<not> bit w 31"
proof -
  assume "uint w < 2 ^ 31"
  then have "take_bit 31 (uint w) = uint w" by (simp add: take_bit_int_eq_self)
  then have "\<not> bit (uint w) 31" by (metis bit_take_bit_iff less_irrefl)
  then show ?thesis by (simp add: bit_uint_iff)
qed

lemma luma_sum_uint:
  fixes a b c :: "32 word"
  assumes "uint a < 256" "uint b < 256" "uint c < 256"
  shows "uint (77 * a + 150 * b + 29 * c) = 77 * uint a + 150 * uint b + 29 * uint c"
proof -
  have "77 * uint a + 150 * uint b + 29 * uint c < 2 ^ 32" using assms by simp
  moreover have "0 \<le> 77 * uint a + 150 * uint b + 29 * uint c" by simp
  ultimately show ?thesis
    by (simp add: uint_word_ariths mod_add_eq mod_mult_eq take_bit_eq_mod)
qed

lemma luma_small:
  fixes r g b :: int
  assumes "r < 256" and "g < 256" and "b < 256"
  shows "77 * r + 150 * g + 29 * b < 2 ^ 31"
  using assms by simp

lemma rgb_to_brightness_sint:
  "sint (rgb_to_brightness lstate) =
     (77 * ((uint (color lstate AND 0xffffff) div 65536) mod 256)
      + 150 * ((uint (color lstate AND 0xffffff) div 256) mod 256)
      + 29 * (uint (color lstate AND 0xffffff) mod 256)) div 256"
proof -
  define c where "c = color lstate AND 0xffffff"
  define s where
    "s = 77 * (drop_bit 16 c AND 0xff) + 150 * (drop_bit 8 c AND 0xff) + 29 * (c AND 0xff)"
  have c31: "\<not> bit c 31" unfolding c_def by (rule masked_no_msb)
  have s_uint: "uint s = 77 * ((uint c div 65536) mod 256) + 150 * ((uint c div 256) mod 256)
                           + 29 * (uint c mod 256)"
    unfolding s_def by (simp add: luma_sum_uint uint_byte uint_drop8 uint_drop16)
  have s_small: "uint s < 2 ^ 31"
    unfolding s_uint by (rule luma_small) simp_all
  have s31: "\<not> bit s 31" by (rule no_msb_small [OF s_small])
  have "rgb_to_brightness lstate =
          signed_drop_bit 8 (77 * (signed_drop_bit 16 c AND 0xff)
            + 150 * (signed_drop_bit 8 c AND 0xff) + 29 * (c AND 0xff))"
    unfolding rgb_to_brightness_def Let_def c_def ..
  also have "\<dots> = signed_drop_bit 8 s"
    by (simp only: signed_drop_bit_nonneg [OF c31] s_def)
  also have "\<dots> = drop_bit 8 s"
    by (rule signed_drop_bit_nonneg [OF s31])
  finally have r: "rgb_to_brightness lstate = drop_bit 8 s" .
  have "uint (drop_bit 8 s) < 2 ^ 31" using s_small by (simp add: uint_drop8)
  then have "sint (drop_bit 8 s) = uint s div 256"
    by (simp add: sint_eq_uint_small uint_drop8)
  then have "sint (rgb_to_brightness lstate) = uint s div 256"
    by (simp only: r)
  then show ?thesis
    unfolding s_uint c_def .
qed

text \<open>
  Claim C9. \<open>set_light_backlight\<close> hands \<open>rgb_to_brightness\<close> of the request to
  \<open>write_int\<close> on the backlight file, so the one value written, when the file opens, is
  \<open>(77 * red + 150 * green + 29 * blue) / 256\<close> rounded down, with red, green and blue
  the three bytes of the color masked to 24 bits. The value lies between 0 and 255; it is
  255 for color \<open>0xFFFFFF\<close> and 0 for color 0.
\<close>

theorem set_light_backlight_luma:
  "set_light_backlight env lstate p = write_int env LCD_FILE (rgb_to_brightness lstate) p
   \<and> syscalls (snd (set_light_backlight env lstate p)) =
       syscalls p @ (if 0 \<le> open_fd env
                     then [SysOpen LCD_FILE, SysWrite (sint (rgb_to_brightness lstate)), SysClose]
                     else [SysOpen LCD_FILE])
   \<and> sint (rgb_to_brightness lstate) =
       (77 * ((uint (color lstate AND 0xFFFFFF) div 65536) mod 256)
        + 150 * ((uint (color lstate AND 0xFFFFFF) div 256) mod 256)
        + 29 * (uint (color lstate AND 0xFFFFFF) mod 256)) div 256
   \<and> 0 \<le> sint (rgb_to_brightness lstate) \<and> sint (rgb_to_brightness lstate) \<le> 255
   \<and> sint (rgb_to_brightness (lstate\<lparr>color := 0xFFFFFF\<rparr>)) = 255
   \<and> sint (rgb_to_brightness (lstate\<lparr>color := 0x000000\<rparr>)) = 0"
proof -
  define c where "c = uint (color lstate AND 0xFFFFFF)"
  have call: "set_light_backlight env lstate p
                = write_int env LCD_FILE (rgb_to_brightness lstate) p"
    by (simp add: set_light_backlight_def)
  have calls: "syscalls (snd (set_light_backlight env lstate p)) =
       syscalls p @ (if 0 \<le> open_fd env
                     then [SysOpen LCD_FILE, SysWrite (sint (rgb_to_brightness lstate)), SysClose]
                     else [SysOpen LCD_FILE])"
    by (simp add: call write_int_def issue_def)
  define r where "r = (c div 65536) mod 256"
  define g where "g = (c div 256) mod 256"
  define b where "b = c mod 256"
  have luma: "sint (rgb_to_brightness lstate) = (77 * r + 150 * g + 29 * b) div 256"
    unfolding r_def g_def b_def c_def by (rule rgb_to_brightness_sint)
  have bytes: "0 \<le> r" "r \<le> 255" "0 \<le> g" "g \<le> 255" "0 \<le> b" "b \<le> 255"
    by (simp_all add: r_def g_def b_def)
  have sum: "0 \<le> 77 * r + 150 * g + 29 * b" "77 * r + 150 * g + 29 * b \<le> 65280"
    using bytes by linarith+
  have lower: "0 \<le> sint (rgb_to_brightness lstate)"
    unfolding luma using sum(1) by (simp add: pos_imp_zdiv_nonneg_iff)
  have upper: "sint (rgb_to_brightness lstate) \<le> 255"
    unfolding luma using sum(2) by linarith
  have white: "sint (rgb_to_brightness (lstate\<lparr>color := 0xFFFFFF\<rparr>)) = 255"
    by (simp add: rgb_to_brightness_def)
  have black: "sint (rgb_to_brightness (lstate\<lparr>color := 0x000000\<rparr>)) = 0"
    by (simp add: rgb_to_brightness_def)
  from call calls luma lower upper white black show ?thesis
    unfolding r_def g_def b_def c_def by blast
qed

end
